theory Spec2Isabelle
  imports Main "HOL-Library.Word" "HOL-Library.Sublist"
begin

section \<open>Go strings, slices and the library functions of package \<open>strings\<close>\<close>

text \<open>
  A Go \<open>string\<close> is a sequence of bytes, and so is \<^typ>\<open>string\<close> here. Text beyond
  ASCII is its UTF-8 encoding, as in the source file.

  A slice expression \<open>s[:n]\<close> panics when \<open>n > len(s)\<close>; \<open>sliceTo\<close> returns the
  panic as a value.
\<close>

datatype panic = SliceBounds

definition sliceTo :: "string \<Rightarrow> nat \<Rightarrow> panic + string" where
  "sliceTo s n = (if n \<le> length s then Inr (take n s) else Inl SliceBounds)"

text \<open>\<open>strings.Contains(s, substr)\<close>.\<close>

fun Contains :: "string \<Rightarrow> string \<Rightarrow> bool" where
  "Contains [] substr = (substr = [])"
| "Contains (c # cs) substr = (prefix substr (c # cs) \<or> Contains cs substr)"

text \<open>
  \<open>strings.ReplaceAll(s, old, new)\<close> for a non-empty \<open>old\<close>: the non-overlapping
  occurrences of \<open>old\<close>, from the left. (The source calls it with the three-byte
  encodings of the spinner runes only; Go's special case for an empty \<open>old\<close> is not
  modelled and the string is returned as it is.)
\<close>

function ReplaceAll :: "string \<Rightarrow> string \<Rightarrow> string \<Rightarrow> string" where
  "ReplaceAll [] old new = []"
| "ReplaceAll (c # cs) old new =
     (if old = [] then c # cs
      else if prefix old (c # cs) then new @ ReplaceAll (drop (length old) (c # cs)) old new
      else c # ReplaceAll cs old new)"
  by pat_completeness auto
termination
  by (relation "measure (\<lambda>(s, old, new). length s)") auto

text \<open>\<open>strings.Split(s, "\n")\<close>, \<open>strings.Join(lines, "\n")\<close> and
  \<open>strings.TrimRight(line, cutset)\<close>. \<open>Split\<close> of a string with \<open>n\<close> separators has
  \<open>n + 1\<close> fields; the empty string has the one field \<open>""\<close>.\<close>

fun Split :: "string \<Rightarrow> char \<Rightarrow> string list" where
  "Split [] sep = [[]]"
| "Split (c # cs) sep =
     (if c = sep then [] # Split cs sep
      else (c # hd (Split cs sep)) # tl (Split cs sep))"

fun Join :: "string list \<Rightarrow> char \<Rightarrow> string" where
  "Join [] sep = []"
| "Join [l] sep = l"
| "Join (l # ls) sep = l @ sep # Join ls sep"

definition TrimRight :: "string \<Rightarrow> string \<Rightarrow> string" where
  "TrimRight s cutset = rev (dropWhile (\<lambda>c. c \<in> set cutset) (rev s))"

section \<open>Package \<open>regexp\<close>: the patterns of the source and leftmost-first matching\<close>

text \<open>
  The patterns of the source use literals, case-folded literals (\<open>(?i)\<close>), character
  classes, concatenation, alternation, the greedy star and one capture group;
  \<open>x+\<close> is \<open>xx*\<close> and \<open>x{3,}\<close> is \<open>xxxx*\<close>. None has an anchor or a word boundary,
  so a match depends on the text from its start only.

  \<open>ms r s\<close> lists the ways \<open>r\<close> matches a prefix of \<open>s\<close>, in the order in which a
  backtracking matcher prefers them (Go's leftmost-first rule: the left alternative
  first, one more iteration of a star first). Each result is the text of group 1,
  if the group took part, and the rest of \<open>s\<close> after the match.

  Matching is on bytes. The literals and the excluded characters of the patterns are
  ASCII or, for the middle dot, a whole UTF-8 sequence, so a match on bytes begins and
  ends where Go's match on runes does. A case-folded literal compares ASCII letters
  without their case: the letters of the \<open>(?i)\<close> patterns of the source have no case
  variant outside ASCII (none of them is k or s).
\<close>

datatype regex =
    Lit string
  | ILit string
  | Cls "char \<Rightarrow> bool"
  | Seq regex regex
  | Alt regex regex
  | Star regex
  | Grp regex

definition asciiLower :: "char \<Rightarrow> char" where
  "asciiLower c =
     (if (65::nat) \<le> of_char c \<and> of_char c \<le> (90::nat)
      then char_of (of_char c + (32::nat)) else c)"

definition later :: "string option \<Rightarrow> string option \<Rightarrow> string option" where
  "later g2 g1 = (case g2 of None \<Rightarrow> g1 | Some x \<Rightarrow> Some x)"

function ms :: "regex \<Rightarrow> string \<Rightarrow> (string option \<times> string) list" where
  "ms (Lit l) s = (if prefix l s then [(None, drop (length l) s)] else [])"
| "ms (ILit l) s =
     (if length l \<le> length s \<and> map asciiLower (take (length l) s) = map asciiLower l
      then [(None, drop (length l) s)] else [])"
| "ms (Cls P) s = (case s of [] \<Rightarrow> [] | c # cs \<Rightarrow> if P c then [(None, cs)] else [])"
| "ms (Seq a b) s =
     concat (map (\<lambda>m1. map (\<lambda>m2. (later (fst m2) (fst m1), snd m2)) (ms b (snd m1))) (ms a s))"
| "ms (Alt a b) s = ms a s @ ms b s"
| "ms (Star a) s =
     concat (map (\<lambda>m1. if length (snd m1) < length s
                        then map (\<lambda>m2. (later (fst m2) (fst m1), snd m2)) (ms (Star a) (snd m1))
                        else []) (ms a s))
     @ [(None, s)]"
| "ms (Grp a) s = map (\<lambda>m. (Some (take (length s - length (snd m)) s), snd m)) (ms a s)"
  by pat_completeness auto
termination
  by (relation "inv_image (less_than <*lex*> less_than) (\<lambda>(r, s). (size r, length s))") auto


text \<open>The leftmost match: the text before it, group 1, and the text after it.\<close>

fun firstMatch :: "regex \<Rightarrow> string \<Rightarrow> (string \<times> string option \<times> string) option" where
  "firstMatch r [] = (case ms r [] of [] \<Rightarrow> None | m # _ \<Rightarrow> Some ([], fst m, snd m))"
| "firstMatch r (c # cs) =
     (case ms r (c # cs) of
        m # _ \<Rightarrow> Some ([], fst m, snd m)
      | [] \<Rightarrow> (case firstMatch r cs of
                 None \<Rightarrow> None
               | Some f \<Rightarrow> Some (c # fst f, snd f)))"

definition MatchString :: "regex \<Rightarrow> string \<Rightarrow> bool" where
  "MatchString r s = (firstMatch r s \<noteq> None)"

text \<open>
  A replacement template is text with references to group 1: \<open>"$1..."\<close> is the group
  followed by three dots (a name ends at the first character that is no letter, digit
  or underscore), \<open>"(STATUS)"\<close>, \<open>"\n\n"\<close> and \<open>"-"\<close> are text. A group that took no part
  expands to the empty string.
\<close>

datatype piece = Text string | Group1

fun expand :: "piece list \<Rightarrow> string option \<Rightarrow> string" where
  "expand [] g = []"
| "expand (Text t # ps) g = t @ expand ps g"
| "expand (Group1 # ps) g = (case g of None \<Rightarrow> [] | Some x \<Rightarrow> x) @ expand ps g"

text \<open>
  \<open>re.ReplaceAllString(src, repl)\<close>: the text before the leftmost match, the expanded
  template, and the same again on the text after the match. Every pattern of the source
  starts with a character it must read, so no match is empty; the test on the lengths
  is there for the function to be total, and where it fails the rest is kept as it is
  (Go then steps over one character, which is not modelled).
\<close>

function ReplaceAllString :: "regex \<Rightarrow> string \<Rightarrow> piece list \<Rightarrow> string" where
  "ReplaceAllString re src repl =
     (case firstMatch re src of
        None \<Rightarrow> src
      | Some f \<Rightarrow>
          fst f @ expand repl (fst (snd f)) @
          (if length (snd (snd f)) < length src then ReplaceAllString re (snd (snd f)) repl
           else snd (snd f)))"
  by pat_completeness auto
termination
  by (relation "measure (\<lambda>(re, src, repl). length src)") auto

fun Cat :: "regex list \<Rightarrow> regex" where
  "Cat [] = Lit []"
| "Cat [r] = r"
| "Cat (r # rs) = Seq r (Cat rs)"

definition Plus :: "regex \<Rightarrow> regex" where
  "Plus r = Seq r (Star r)"

definition Not :: "char \<Rightarrow> regex" where
  "Not x = Cls (\<lambda>c. c \<noteq> x)"

definition digit :: regex where
  "digit = Cls (\<lambda>c. (48::nat) \<le> of_char c \<and> of_char c \<le> (57::nat))"

definition space :: regex where
  "space = Cls (\<lambda>c. c \<in> set [CHR 0x09, CHR 0x0A, CHR 0x0C, CHR 0x0D, CHR '' ''])"

section \<open>The content normalizer\<close>

text \<open>
  \<open>dynamicStatusPattern\<close> is \<^verbatim>\<open>\([^)]*\d+s\s*.[^)]*tokens[^)]*\)\<close> (where the dot after \<^verbatim>\<open>\s*\<close>
  stands for the middle dot U+00B7 of the source, the bytes C2 B7), \<open>thinkingPattern\<close> is
  \<^verbatim>\<open>(Thinking|Connecting)[^(]*\([^)]*\)\<close>, and \<open>normalizeBlankLines\<close> replaces
  \<^verbatim>\<open>\n{3,}\<close> by two newlines.
\<close>

definition dynamicStatusPattern :: regex where
  "dynamicStatusPattern =
     Cat [Lit ''('', Star (Not CHR '')''), Plus digit, Lit ''s'', Star space,
          Lit [CHR 0xC2, CHR 0xB7], Star (Not CHR '')''), Lit ''tokens'',
          Star (Not CHR '')''), Lit '')'']"

definition thinkingPattern :: regex where
  "thinkingPattern =
     Cat [Grp (Alt (Lit ''Thinking'') (Lit ''Connecting'')), Star (Not CHR ''(''),
          Lit ''('', Star (Not CHR '')''), Lit '')'']"

definition normalizeBlankLines :: "string \<Rightarrow> string" where
  "normalizeBlankLines content =
     ReplaceAllString
       (Cat [Lit [CHR 0x0A], Lit [CHR 0x0A], Lit [CHR 0x0A], Star (Lit [CHR 0x0A])])
       content [Text [CHR 0x0A, CHR 0x0A]]"

text \<open>
  \<open>stripControlChars\<close> ranges over the runes of the string. \<open>runeLen\<close> is the number of
  bytes of the well-formed UTF-8 sequence at the head of a string, by the table of
  package \<open>unicode/utf8\<close> (no overlong forms, no surrogates, nothing above U+10FFFF),
  and 0 where there is none: the loop then reads one byte as U+FFFD, which is written
  back as the three bytes EF BF BD. A rune of one byte is the byte; a rune of several
  bytes is 128 or more, so it is kept and written back as it was read.
\<close>

definition cont :: "char \<Rightarrow> bool" where
  "cont c = ((128::nat) \<le> of_char c \<and> of_char c \<le> (191::nat))"

definition second :: "nat \<Rightarrow> char \<Rightarrow> bool" where
  "second b c =
     ((if b = 224 then 160 else if b = 240 then 144 else (128::nat)) \<le> of_char c \<and>
      of_char c \<le> (if b = 237 then 159 else if b = 244 then 143 else (191::nat)))"

fun runeLen :: "string \<Rightarrow> nat" where
  "runeLen [] = 0"
| "runeLen (c # cs) =
     (let b = (of_char c :: nat) in
      if b < 128 then 1
      else if 194 \<le> b \<and> b \<le> 223 then
        (case cs of c1 # _ \<Rightarrow> if cont c1 then 2 else 0 | _ \<Rightarrow> 0)
      else if 224 \<le> b \<and> b \<le> 239 then
        (case cs of c1 # c2 # _ \<Rightarrow> if second b c1 \<and> cont c2 then 3 else 0 | _ \<Rightarrow> 0)
      else if 240 \<le> b \<and> b \<le> 244 then
        (case cs of c1 # c2 # c3 # _ \<Rightarrow> if second b c1 \<and> cont c2 \<and> cont c3 then 4 else 0
                  | _ \<Rightarrow> 0)
      else 0)"

definition keepRune :: "nat \<Rightarrow> bool" where
  "keepRune r = ((r \<ge> 32 \<and> r \<noteq> 127) \<or> r = 9 \<or> r = 10 \<or> r = 13)"

function stripControlChars :: "string \<Rightarrow> string" where
  "stripControlChars [] = []"
| "stripControlChars (c # cs) =
     (let n = runeLen (c # cs) in
      if n = 0 then [CHR 0xEF, CHR 0xBF, CHR 0xBD] @ stripControlChars cs
      else if n = 1 then
        (if keepRune (of_char c) then c # stripControlChars cs else stripControlChars cs)
      else take n (c # cs) @ stripControlChars (drop n (c # cs)))"
  by pat_completeness auto
termination
  by (relation "measure length") auto

text \<open>The ten Braille spinner runes U+280B, U+2819, U+2839, U+2838, U+283C, U+2834,
  U+2826, U+2827, U+2807, U+280F, each as its three bytes.\<close>

definition spinners :: "string list" where
  "spinners =
     map (\<lambda>b. [CHR 0xE2, CHR 0xA0, b])
       [CHR 0x8B, CHR 0x99, CHR 0xB9, CHR 0xB8, CHR 0xBC, CHR 0xB4, CHR 0xA6, CHR 0xA7,
        CHR 0x87, CHR 0x8F]"

text \<open>
  What the functions use from outside the sources at hand: \<open>sha256.Sum256\<close> (a
  \<open>[32]byte\<close>, here a function of the index), \<open>strings.ToLower\<close>, the package's own
  \<open>StripANSI\<close>, whose file is not among the sources, and the flag \<open>debugStatusEnabled\<close>,
  read from the environment when the program starts.
\<close>

record pkg =
  Sum256 :: "string \<Rightarrow> nat \<Rightarrow> 8 word"
  ToLower :: "string \<Rightarrow> string"
  StripANSI :: "string \<Rightarrow> string"
  debugStatusEnabled :: bool

definition normalizeContent :: "pkg \<Rightarrow> string \<Rightarrow> string" where
  "normalizeContent p content =
     (let result = StripANSI p content;
          result = stripControlChars result;
          result = fold (\<lambda>r acc. ReplaceAll acc r []) spinners result;
          result = ReplaceAllString dynamicStatusPattern result [Text ''(STATUS)''];
          result = ReplaceAllString thinkingPattern result [Group1, Text ''...''];
          lines = map (\<lambda>line. TrimRight line [CHR '' '', CHR 0x09]) (Split result (CHR 0x0A));
          result = Join lines (CHR 0x0A)
      in normalizeBlankLines result)"

text \<open>\<open>hashContent\<close>: the 32 bytes of the digest in hexadecimal, 64 characters.\<close>

definition hexDigit :: "nat \<Rightarrow> char" where
  "hexDigit n = ''0123456789abcdef'' ! n"

definition EncodeToString :: "8 word list \<Rightarrow> string" where
  "EncodeToString bs = concat (map (\<lambda>b. [hexDigit (unat b div 16), hexDigit (unat b mod 16)]) bs)"

definition hashContent :: "pkg \<Rightarrow> string \<Rightarrow> string" where
  "hashContent p content = EncodeToString (map (Sum256 p content) [0..<32])"


section \<open>Sessions and their state tracker\<close>

text \<open>
  A \<open>time.Time\<close> is a number of nanoseconds on the clock, a \<open>time.Duration\<close> a number
  of nanoseconds; \<open>time.Since(t)\<close> is the clock minus \<open>t\<close>. (Go clips a difference to 64
  bits; the source only compares differences with 2 s and 30 s, where the clipped and
  the exact difference agree.) Every reading of the clock, every \<open>Exists()\<close> and every
  \<open>CapturePane()\<close> is an argument of the function that makes it: \<open>capture\<close> is \<open>None\<close>
  where \<open>CapturePane\<close> returns an error.
\<close>

definition Second :: int where
  "Second = 1000000000"

definition activityCooldown :: int where
  "activityCooldown = 2 * Second"

definition zeroTime :: int where
  "zeroTime = - 62135596800 * Second"

record StateTracker =
  lastHash :: string
  lastChangeTime :: int
  acknowledged :: bool
  stabilized :: bool
  lastContent :: string

text \<open>The fields of \<open>Session\<close> that the functions below read or write. (Its own
  \<open>lastHash\<close> and \<open>lastContent\<close>, the prompt detector and the mutex belong to functions
  that are not modelled.)\<close>

record Session =
  Name :: string
  DisplayName :: string
  WorkDir :: string
  Command :: string
  Created :: int
  detectedTool :: string
  toolDetectedAt :: int
  toolDetectExpiry :: int
  stateTracker :: "StateTracker option"
  lastStableStatus :: string

text \<open>\<open>ensureStateTrackerLocked\<close> allocates the tracker where there is none; it is
  given here together with the tracker that the session then points to.\<close>

definition ensureStateTrackerLocked :: "int \<Rightarrow> Session \<Rightarrow> StateTracker \<times> Session" where
  "ensureStateTrackerLocked now s =
     (case stateTracker s of
        None \<Rightarrow>
          (let tr = \<lparr>lastHash = [], lastChangeTime = now - activityCooldown,
                     acknowledged = False, stabilized = False, lastContent = []\<rparr>
           in (tr, s\<lparr>stateTracker := Some tr\<rparr>))
      | Some tr \<Rightarrow> (tr, s))"

definition SessionPrefix :: string where
  "SessionPrefix = ''agentdeck_''"

text \<open>\<open>sanitizeName\<close> replaces \<^verbatim>\<open>[^a-zA-Z0-9-]+\<close> by a hyphen.\<close>

definition sanitizeName :: "string \<Rightarrow> string" where
  "sanitizeName name =
     ReplaceAllString
       (Plus (Cls (\<lambda>c. \<not> ((97 \<le> (of_char c :: nat) \<and> (of_char c :: nat) \<le> 122) \<or>
                           (65 \<le> (of_char c :: nat) \<and> (of_char c :: nat) \<le> 90) \<or>
                           (48 \<le> (of_char c :: nat) \<and> (of_char c :: nat) \<le> 57) \<or>
                           c = CHR ''-''))))
       name [Text ''-'']"

text \<open>\<open>NewSession\<close>; \<open>uniqueSuffix\<close> is what \<open>generateShortID()\<close> returned.\<close>

definition NewSession :: "string \<Rightarrow> string \<Rightarrow> string \<Rightarrow> int \<Rightarrow> Session" where
  "NewSession name workDir uniqueSuffix now =
     \<lparr>Name = SessionPrefix @ sanitizeName name @ ''_'' @ uniqueSuffix,
      DisplayName = name, WorkDir = workDir, Command = [], Created = now,
      detectedTool = [], toolDetectedAt = zeroTime, toolDetectExpiry = 30 * Second,
      stateTracker = None, lastStableStatus = ''waiting''\<rparr>"

definition ReconnectSession :: "string \<Rightarrow> string \<Rightarrow> string \<Rightarrow> string \<Rightarrow> int \<Rightarrow> Session" where
  "ReconnectSession tmuxName displayName workDir command now =
     \<lparr>Name = tmuxName, DisplayName = displayName, WorkDir = workDir, Command = command,
      Created = now, detectedTool = [], toolDetectedAt = zeroTime,
      toolDetectExpiry = 30 * Second, stateTracker = None, lastStableStatus = ''waiting''\<rparr>"

definition ReconnectSessionWithStatus ::
  "string \<Rightarrow> string \<Rightarrow> string \<Rightarrow> string \<Rightarrow> string \<Rightarrow> int \<Rightarrow> int \<Rightarrow> Session" where
  "ReconnectSessionWithStatus tmuxName displayName workDir command previousStatus created now =
     (let sess = ReconnectSession tmuxName displayName workDir command created in
      if previousStatus = ''idle'' then
        sess\<lparr>stateTracker := Some \<lparr>lastHash = [], lastChangeTime = now - 10 * Second,
                                     acknowledged = True, stabilized = True, lastContent = []\<rparr>,
             lastStableStatus := ''idle''\<rparr>
      else if previousStatus = ''waiting'' then
        sess\<lparr>stateTracker := Some \<lparr>lastHash = [], lastChangeTime = now - 10 * Second,
                                     acknowledged = False, stabilized = True, lastContent = []\<rparr>,
             lastStableStatus := ''waiting''\<rparr>
      else if previousStatus = ''active'' then sess\<lparr>lastStableStatus := ''waiting''\<rparr>
      else sess\<lparr>lastStableStatus := ''waiting''\<rparr>)"

subsection \<open>Tool detection\<close>

definition toolDetectionPatterns :: "(string \<times> regex list) list" where
  "toolDetectionPatterns =
     [(''claude'', [ILit ''claude'', ILit ''anthropic'']),
      (''gemini'', [ILit ''gemini'', ILit ''google ai'']),
      (''aider'', [ILit ''aider'']),
      (''codex'', [ILit ''codex'', ILit ''openai''])]"

text \<open>
  \<open>range\<close> over a Go map visits the keys in an order of the runtime's choice;
  \<open>order\<close> is the order of one call. For each tool in that order, the first of its
  patterns that matches ends the loop with that tool.
\<close>

fun detectByContent :: "string list \<Rightarrow> string \<Rightarrow> string option" where
  "detectByContent [] cleanContent = None"
| "detectByContent (tool # order) cleanContent =
     (if list_ex (\<lambda>pattern. MatchString pattern cleanContent)
           (case map_of toolDetectionPatterns tool of None \<Rightarrow> [] | Some patterns \<Rightarrow> patterns)
      then Some tool else detectByContent order cleanContent)"

definition detected :: "string \<Rightarrow> int \<Rightarrow> Session \<Rightarrow> string \<times> Session" where
  "detected tool now s = (tool, s\<lparr>detectedTool := tool, toolDetectedAt := now\<rparr>)"

text \<open>\<open>DetectTool\<close> reads the clock for the test of the cache (\<open>since\<close>) and again when
  it stores a result (\<open>now\<close>); \<open>CapturePane\<close> runs between the two.\<close>

definition DetectTool ::
  "pkg \<Rightarrow> string list \<Rightarrow> string option \<Rightarrow> int \<Rightarrow> int \<Rightarrow> Session \<Rightarrow> string \<times> Session" where
  "DetectTool p order capture since now s =
     (if detectedTool s \<noteq> [] \<and> since - toolDetectedAt s < toolDetectExpiry s
      then (detectedTool s, s)
      else if Command s \<noteq> [] \<and> Contains (ToLower p (Command s)) ''claude''
      then detected ''claude'' now s
      else if Command s \<noteq> [] \<and> Contains (ToLower p (Command s)) ''gemini''
      then detected ''gemini'' now s
      else if Command s \<noteq> [] \<and> Contains (ToLower p (Command s)) ''aider''
      then detected ''aider'' now s
      else if Command s \<noteq> [] \<and> Contains (ToLower p (Command s)) ''codex''
      then detected ''codex'' now s
      else
        (case capture of
           None \<Rightarrow> detected ''shell'' now s
         | Some content \<Rightarrow>
             (case detectByContent order (StripANSI p content) of
                Some tool \<Rightarrow> detected tool now s
              | None \<Rightarrow> detected ''shell'' now s)))"

subsection \<open>Acknowledgement\<close>

text \<open>
  The arguments of a call of \<open>debugLog\<close> are computed whether or not the flag is set,
  so \<open>newHash[:16]\<close> and \<open>currentHash[:16]\<close> below are sliced on every call.
\<close>

definition AcknowledgeWithSnapshot ::
  "pkg \<Rightarrow> bool \<Rightarrow> string option \<Rightarrow> int \<Rightarrow> Session \<Rightarrow> (panic + unit) \<times> Session" where
  "AcknowledgeWithSnapshot p exists capture now s0 =
     (case ensureStateTrackerLocked now s0 of (tr, s) \<Rightarrow>
        if \<not> exists then
          (Inr (), s\<lparr>stateTracker := Some (tr\<lparr>acknowledged := True\<rparr>),
                     lastStableStatus := ''inactive''\<rparr>)
        else
          (case capture of
             None \<Rightarrow>
               (Inr (), s\<lparr>stateTracker := Some (tr\<lparr>acknowledged := True\<rparr>),
                          lastStableStatus := ''idle''\<rparr>)
           | Some content \<Rightarrow>
               (let cleanContent = normalizeContent p content;
                    newHash = hashContent p cleanContent;
                    s' = s\<lparr>stateTracker := Some (tr\<lparr>lastHash := newHash, acknowledged := True\<rparr>),
                          lastStableStatus := ''idle''\<rparr>
                in case sliceTo newHash 16 of
                     Inl e \<Rightarrow> (Inl e, s')
                   | Inr short \<Rightarrow> (Inr (), s'))))"

definition Acknowledge :: "int \<Rightarrow> Session \<Rightarrow> Session" where
  "Acknowledge now s0 =
     (case ensureStateTrackerLocked now s0 of (tr, s) \<Rightarrow>
        s\<lparr>stateTracker := Some (tr\<lparr>acknowledged := True\<rparr>), lastStableStatus := ''idle''\<rparr>)"

definition ResetAcknowledged :: "int \<Rightarrow> Session \<Rightarrow> Session" where
  "ResetAcknowledged now s0 =
     (case ensureStateTrackerLocked now s0 of (tr, s) \<Rightarrow>
        s\<lparr>stateTracker := Some (tr\<lparr>acknowledged := False\<rparr>), lastStableStatus := ''waiting''\<rparr>)"

subsection \<open>The status poll\<close>

text \<open>
  \<open>GetStatus\<close> returns a status and a \<open>nil\<close> error on every path that returns; the
  model returns the status, or the panic of a slice out of range, and the session as
  the call leaves it. \<open>currentHash[:16]\<close> is sliced when the tracker is created, and
  \<open>prevHash[:16]\<close> and \<open>currentHash[:16]\<close> when the content changed and the debug flag is
  set (before any field is written). The other slices of the debug block are guarded
  by tests on the lengths, and \<open>shortName\<close> is used for logging only.
\<close>

definition GetStatus ::
  "pkg \<Rightarrow> bool \<Rightarrow> string option \<Rightarrow> int \<Rightarrow> Session \<Rightarrow> (panic + string) \<times> Session" where
  "GetStatus p exists capture now s =
     (if \<not> exists then (Inr ''inactive'', s\<lparr>lastStableStatus := ''inactive''\<rparr>)
      else
        (case capture of
           None \<Rightarrow> (Inr ''inactive'', s\<lparr>lastStableStatus := ''inactive''\<rparr>)
         | Some content \<Rightarrow>
             (let cleanContent = normalizeContent p content;
                  currentHash = hashContent p cleanContent;
                  currentHash = (if currentHash = [] \<or> cleanContent = [] then ''__empty__''
                                 else currentHash)
              in case stateTracker s of
                   None \<Rightarrow>
                     (let s' = s\<lparr>stateTracker :=
                                    Some \<lparr>lastHash = currentHash,
                                          lastChangeTime = now - activityCooldown,
                                          acknowledged = False, stabilized = False,
                                          lastContent = []\<rparr>,
                                 lastStableStatus := ''waiting''\<rparr>
                      in case sliceTo currentHash 16 of
                           Inl e \<Rightarrow> (Inl e, s')
                         | Inr short \<Rightarrow> (Inr ''waiting'', s'))
                 | Some tr \<Rightarrow>
                     if lastHash tr = [] then
                       (if acknowledged tr
                        then (Inr ''idle'', s\<lparr>stateTracker := Some (tr\<lparr>lastHash := currentHash\<rparr>),
                                               lastStableStatus := ''idle''\<rparr>)
                        else (Inr ''waiting'', s\<lparr>stateTracker := Some (tr\<lparr>lastHash := currentHash\<rparr>),
                                                  lastStableStatus := ''waiting''\<rparr>))
                     else if lastHash tr \<noteq> currentHash then
                       (if debugStatusEnabled p \<and>
                           (isl (sliceTo (lastHash tr) 16) \<or> isl (sliceTo currentHash 16))
                        then (Inl SliceBounds, s)
                        else
                          (let tr' = tr\<lparr>lastHash := currentHash, lastContent := cleanContent,
                                         lastChangeTime := now, acknowledged := False\<rparr>
                           in if stabilized tr'
                              then (Inr ''active'', s\<lparr>stateTracker := Some tr',
                                                       lastStableStatus := ''active''\<rparr>)
                              else (Inr ''waiting'', s\<lparr>stateTracker := Some tr',
                                                        lastStableStatus := ''waiting''\<rparr>)))
                     else if now - lastChangeTime tr < activityCooldown then
                       (if stabilized tr
                        then (Inr ''active'', s\<lparr>lastStableStatus := ''active''\<rparr>)
                        else (Inr ''waiting'', s\<lparr>lastStableStatus := ''waiting''\<rparr>))
                     else
                       (let tr' = (if \<not> stabilized tr then tr\<lparr>stabilized := True\<rparr> else tr)
                        in if acknowledged tr'
                           then (Inr ''idle'', s\<lparr>stateTracker := Some tr',
                                                  lastStableStatus := ''idle''\<rparr>)
                           else (Inr ''waiting'', s\<lparr>stateTracker := Some tr',
                                                     lastStableStatus := ''waiting''\<rparr>)))))"

subsection \<open>Runs of calls on one session\<close>

text \<open>A call with what it observes. A run goes on after a panic with the session as
  the panicking call left it (a caller may recover).\<close>

datatype call =
    CallGetStatus bool "string option" int
  | CallAcknowledge int
  | CallAcknowledgeWithSnapshot bool "string option" int
  | CallResetAcknowledged int

fun step :: "pkg \<Rightarrow> call \<Rightarrow> Session \<Rightarrow> Session" where
  "step p (CallGetStatus exists capture now) s = snd (GetStatus p exists capture now s)"
| "step p (CallAcknowledge now) s = Acknowledge now s"
| "step p (CallAcknowledgeWithSnapshot exists capture now) s =
     snd (AcknowledgeWithSnapshot p exists capture now s)"
| "step p (CallResetAcknowledged now) s = ResetAcknowledged now s"

fun run :: "pkg \<Rightarrow> call list \<Rightarrow> Session \<Rightarrow> Session" where
  "run p [] s = s"
| "run p (c # cs) s = run p cs (step p c s)"


section \<open>Notions used in the statements\<close>

text \<open>The hash that a poll compares with the tracker's: the hash of the normalized
  content, or the placeholder where the normalized content is empty.\<close>

definition freshHash :: "pkg \<Rightarrow> string \<Rightarrow> string" where
  "freshHash p content =
     (let cleanContent = normalizeContent p content;
          currentHash = hashContent p cleanContent
      in if currentHash = [] \<or> cleanContent = [] then ''__empty__'' else currentHash)"

definition isStabilized :: "Session \<Rightarrow> bool" where
  "isStabilized s = (case stateTracker s of None \<Rightarrow> False | Some tr \<Rightarrow> stabilized tr)"

text \<open>A poll that finds no session, or whose capture fails.\<close>

fun failedPoll :: "call \<Rightarrow> bool" where
  "failedPoll (CallGetStatus exists capture now) = (\<not> exists \<or> capture = None)"
| "failedPoll c = False"

text \<open>
  Modelled from the spec: \<open>StripANSI\<close>, whose source file is missing. The spec has it
  strip the CSI sequences (ESC, an opening bracket, parameters, a final byte), the OSC
  sequences (ESC, a closing bracket, text, BEL) and the C1 control codes (U+0080 to
  U+009F, in UTF-8 the byte C2 and a byte from 80 to 9F). It stands for \<open>StripANSI\<close> in
  the examples; the theorems hold for every \<open>StripANSI\<close>, or say what they assume of it.
\<close>

definition stripANSISpec :: "string \<Rightarrow> string" where
  "stripANSISpec content =
     ReplaceAllString
       (Alt (Cat [Lit [CHR 0x1B, CHR ''[''],
                  Star (Cls (\<lambda>c. (32::nat) \<le> of_char c \<and> of_char c \<le> (63::nat))),
                  Cls (\<lambda>c. (64::nat) \<le> of_char c \<and> of_char c \<le> (126::nat))])
         (Alt (Cat [Lit [CHR 0x1B, CHR '']''], Star (Not (CHR 0x07)), Lit [CHR 0x07]])
              (Cat [Lit [CHR 0xC2],
                    Cls (\<lambda>c. (128::nat) \<le> of_char c \<and> of_char c \<le> (159::nat))])))
       content []"

text \<open>The package of the examples: a checksum in the place of SHA-256 (the examples
  do not depend on which digest it is, only on whether two contents have the same),
  lower case for ASCII, and the debug flag off.\<close>

definition examplePkg :: pkg where
  "examplePkg =
     \<lparr>Sum256 = (\<lambda>content i. of_nat (sum_list (map of_char content) + i)),
      ToLower = map asciiLower,
      StripANSI = stripANSISpec,
      debugStatusEnabled = False\<rparr>"


text \<open>The stored command, in lower case, contains a literal; a pattern of a tool's
  pack matches a text; the cache of the detected tool is valid at a reading of the
  clock.\<close>

definition commandHas :: "pkg \<Rightarrow> Session \<Rightarrow> string \<Rightarrow> bool" where
  "commandHas p s lit = (Command s \<noteq> [] \<and> Contains (ToLower p (Command s)) lit)"

definition toolMatches :: "string \<Rightarrow> string \<Rightarrow> bool" where
  "toolMatches tool cleanContent =
     list_ex (\<lambda>pattern. MatchString pattern cleanContent)
       (case map_of toolDetectionPatterns tool of None \<Rightarrow> [] | Some patterns \<Rightarrow> patterns)"

definition cacheValid :: "int \<Rightarrow> Session \<Rightarrow> bool" where
  "cacheValid since s = (detectedTool s \<noteq> [] \<and> since - toolDetectedAt s < toolDetectExpiry s)"








text \<open>The session of the examples, as \<open>ReconnectSession\<close> builds it.\<close>

definition exampleSession :: Session where
  "exampleSession = ReconnectSession ''agentdeck_demo_0badcafe'' ''demo'' ''/tmp'' ''claude'' 0"

section \<open>The hash and the branches of the status poll\<close>

lemma length_EncodeToString: "length (EncodeToString bs) = 2 * length bs"
  by (induction bs) (auto simp: EncodeToString_def)

lemma length_hashContent: "length (hashContent p content) = 64"
  by (simp add: hashContent_def length_EncodeToString)

lemma hashContent_neq:
  "hashContent p content \<noteq> []" "hashContent p content \<noteq> ''__empty__''"
  using length_hashContent[of p content] by auto

lemma sliceTo_hashContent:
  "sliceTo (hashContent p content) 16 = Inr (take 16 (hashContent p content))"
  by (simp add: sliceTo_def length_hashContent)

lemma freshHash_nonempty: "freshHash p content \<noteq> []"
  by (simp add: freshHash_def Let_def hashContent_neq)

lemma freshHash_cases:
  "freshHash p content =
     (if normalizeContent p content = [] then ''__empty__''
      else hashContent p (normalizeContent p content))"
  by (simp add: freshHash_def Let_def hashContent_neq)

lemma GetStatus_failed:
  "\<not> exists \<or> capture = None \<Longrightarrow>
   GetStatus p exists capture now s = (Inr ''inactive'', s\<lparr>lastStableStatus := ''inactive''\<rparr>)"
  by (auto simp: GetStatus_def)

text \<open>The first poll of a session without a tracker: the tracker is written, and the
  call then panics where the normalized content is empty, since the placeholder has
  nine characters.\<close>

lemma GetStatus_init:
  "stateTracker s = None \<Longrightarrow>
   GetStatus p True (Some content) now s =
     (if normalizeContent p content = [] then Inl SliceBounds else Inr ''waiting'',
      s\<lparr>stateTracker := Some \<lparr>lastHash = freshHash p content,
                                lastChangeTime = now - activityCooldown,
                                acknowledged = False, stabilized = False, lastContent = []\<rparr>,
        lastStableStatus := ''waiting''\<rparr>)"
  by (simp add: GetStatus_def freshHash_cases Let_def hashContent_neq sliceTo_hashContent)
     (simp add: sliceTo_def)

lemma GetStatus_emptyHash:
  "stateTracker s = Some tr \<Longrightarrow> lastHash tr = [] \<Longrightarrow>
   GetStatus p True (Some content) now s =
     (Inr (if acknowledged tr then ''idle'' else ''waiting''),
      s\<lparr>stateTracker := Some (tr\<lparr>lastHash := freshHash p content\<rparr>),
        lastStableStatus := (if acknowledged tr then ''idle'' else ''waiting'')\<rparr>)"
  by (simp add: GetStatus_def freshHash_cases Let_def hashContent_neq)

text \<open>The content changed: with the debug flag set the call panics, before it writes
  any field, where one of the two hashes is shorter than 16 characters.\<close>

lemma GetStatus_changed:
  "stateTracker s = Some tr \<Longrightarrow> lastHash tr \<noteq> [] \<Longrightarrow> lastHash tr \<noteq> freshHash p content \<Longrightarrow>
   GetStatus p True (Some content) now s =
     (if debugStatusEnabled p \<and> (length (lastHash tr) < 16 \<or> normalizeContent p content = [])
      then (Inl SliceBounds, s)
      else (Inr (if stabilized tr then ''active'' else ''waiting''),
            s\<lparr>stateTracker := Some (tr\<lparr>lastHash := freshHash p content,
                                         lastContent := normalizeContent p content,
                                         lastChangeTime := now, acknowledged := False\<rparr>),
              lastStableStatus := (if stabilized tr then ''active'' else ''waiting'')\<rparr>))"
  by (simp add: GetStatus_def freshHash_cases Let_def hashContent_neq sliceTo_hashContent
      split: if_splits)
     (auto simp: sliceTo_def)

lemma GetStatus_cooldown:
  "stateTracker s = Some tr \<Longrightarrow> lastHash tr \<noteq> [] \<Longrightarrow> lastHash tr = freshHash p content \<Longrightarrow>
   now - lastChangeTime tr < activityCooldown \<Longrightarrow>
   GetStatus p True (Some content) now s =
     (Inr (if stabilized tr then ''active'' else ''waiting''),
      s\<lparr>lastStableStatus := (if stabilized tr then ''active'' else ''waiting'')\<rparr>)"
  by (simp add: GetStatus_def freshHash_cases Let_def hashContent_neq split: if_splits)

lemma GetStatus_expired:
  "stateTracker s = Some tr \<Longrightarrow> lastHash tr \<noteq> [] \<Longrightarrow> lastHash tr = freshHash p content \<Longrightarrow>
   \<not> now - lastChangeTime tr < activityCooldown \<Longrightarrow>
   GetStatus p True (Some content) now s =
     (Inr (if acknowledged tr then ''idle'' else ''waiting''),
      s\<lparr>stateTracker := Some (tr\<lparr>stabilized := True\<rparr>),
        lastStableStatus := (if acknowledged tr then ''idle'' else ''waiting'')\<rparr>)"
  by (simp add: GetStatus_def freshHash_cases Let_def hashContent_neq split: if_splits)

lemma normalizeContent_example_empty:
  "normalizeContent examplePkg [] = []" "normalizeContent examplePkg ''   '' = []"
  by code_simp+

lemma debugStatusEnabled_example: "debugStatusEnabled examplePkg = False"
  by (simp add: examplePkg_def)

lemma normalizeContent_example_hello: "normalizeContent examplePkg ''hello'' = ''hello''"
  by code_simp

section \<open>The status poll\<close>

text \<open>
  C2. A poll of an existing session whose capture succeeds and whose fresh hash equals
  the tracker's non-empty \<open>lastHash\<close>: less than 2 seconds after \<open>lastChangeTime\<close> it
  returns active for a stabilized tracker and waiting otherwise, and writes no field
  of the tracker; from 2 seconds on it sets \<open>stabilized\<close> and returns idle for an
  acknowledged tracker and waiting otherwise.
\<close>

theorem GetStatus_unchanged:
  assumes "stateTracker s = Some tr" and "lastHash tr \<noteq> []"
    and "freshHash p content = lastHash tr"
  shows "(now - lastChangeTime tr < 2 * Second \<longrightarrow>
            GetStatus p True (Some content) now s =
              (Inr (if stabilized tr then ''active'' else ''waiting''),
               s\<lparr>lastStableStatus := (if stabilized tr then ''active'' else ''waiting'')\<rparr>) \<and>
            stateTracker (snd (GetStatus p True (Some content) now s)) = Some tr) \<and>
         (\<not> now - lastChangeTime tr < 2 * Second \<longrightarrow>
            GetStatus p True (Some content) now s =
              (Inr (if acknowledged tr then ''idle'' else ''waiting''),
               s\<lparr>stateTracker := Some (tr\<lparr>stabilized := True\<rparr>),
                 lastStableStatus := (if acknowledged tr then ''idle'' else ''waiting'')\<rparr>))"
proof (cases "now - lastChangeTime tr < activityCooldown")
  case True
  from GetStatus_cooldown[OF assms(1,2) assms(3)[symmetric] True] True assms(1)
  show ?thesis by (simp add: activityCooldown_def)
next
  case False
  from GetStatus_expired[OF assms(1,2) assms(3)[symmetric] False] False
  show ?thesis by (simp add: activityCooldown_def)
qed

theorem GetStatus_unchanged_witness:
  "fst (GetStatus examplePkg True (Some ''hello'') 1000000000
         (exampleSession\<lparr>stateTracker :=
            Some \<lparr>lastHash = freshHash examplePkg ''hello'', lastChangeTime = 0,
                  acknowledged = True, stabilized = True, lastContent = []\<rparr>\<rparr>)) = Inr ''active'' \<and>
   fst (GetStatus examplePkg True (Some ''hello'') 3000000000
         (exampleSession\<lparr>stateTracker :=
            Some \<lparr>lastHash = freshHash examplePkg ''hello'', lastChangeTime = 0,
                  acknowledged = True, stabilized = True, lastContent = []\<rparr>\<rparr>)) = Inr ''idle''"
proof -
  let ?tr = "\<lparr>lastHash = freshHash examplePkg ''hello'', lastChangeTime = 0,
              acknowledged = True, stabilized = True, lastContent = []\<rparr>"
  let ?s = "exampleSession\<lparr>stateTracker := Some ?tr\<rparr>"
  have h1: "stateTracker ?s = Some ?tr" by simp
  have h2: "lastHash ?tr \<noteq> []" by (simp add: freshHash_nonempty)
  have h3: "freshHash examplePkg ''hello'' = lastHash ?tr" by simp
  show ?thesis
    using GetStatus_unchanged[OF h1 h2 h3, of 1000000000]
          GetStatus_unchanged[OF h1 h2 h3, of 3000000000]
    by (simp add: Second_def)
qed

text \<open>
  C7. Where the session does not exist or the capture fails, the poll returns inactive
  and the tracker, allocated or not, is the one before the call: only
  \<open>lastStableStatus\<close> of the session is written.
\<close>

theorem GetStatus_failure_frame:
  assumes "\<not> exists \<or> capture = None"
  shows "GetStatus p exists capture now s =
           (Inr ''inactive'', s\<lparr>lastStableStatus := ''inactive''\<rparr>) \<and>
         stateTracker (snd (GetStatus p exists capture now s)) = stateTracker s"
  using assms by (simp add: GetStatus_failed)

theorem GetStatus_failure_frame_witness:
  "fst (GetStatus examplePkg True None 5
         (exampleSession\<lparr>stateTracker :=
            Some \<lparr>lastHash = ''abc'', lastChangeTime = 0, acknowledged = False,
                  stabilized = True, lastContent = []\<rparr>\<rparr>)) = Inr ''inactive'' \<and>
   stateTracker (snd (GetStatus examplePkg True None 5
         (exampleSession\<lparr>stateTracker :=
            Some \<lparr>lastHash = ''abc'', lastChangeTime = 0, acknowledged = False,
                  stabilized = True, lastContent = []\<rparr>\<rparr>))) =
     Some \<lparr>lastHash = ''abc'', lastChangeTime = 0, acknowledged = False,
           stabilized = True, lastContent = []\<rparr> \<and>
   fst (GetStatus examplePkg False (Some ''x'') 5 exampleSession) = Inr ''inactive''"
proof -
  have h: "\<not> True \<or> (None :: string option) = None" by simp
  have h': "\<not> False \<or> Some ''x'' = None" by simp
  show ?thesis
    using GetStatus_failure_frame[OF h, of examplePkg 5]
          GetStatus_failure_frame[OF h', of examplePkg 5 exampleSession]
    by simp
qed


text \<open>
  C3. The first poll of a session without a tracker creates the tracker with the fresh
  hash, the cooldown already expired and both flags off, and is meant to return
  waiting. It does so only where the normalized content is not empty: for an empty or
  blank pane the hash is the nine-character placeholder, and the slice
  \<open>currentHash[:16]\<close> in the arguments of the log call panics after the tracker has
  been written. The theorem runs the first poll of a new session on an empty and on a
  blank pane.
\<close>

theorem GetStatus_first_poll_empty_pane_panics:
  "fst (GetStatus examplePkg True (Some []) 0 (NewSession ''demo'' ''/tmp'' ''0badcafe'' 0)) =
     Inl SliceBounds \<and>
   fst (GetStatus examplePkg True (Some ''   '') 0 (NewSession ''demo'' ''/tmp'' ''0badcafe'' 0)) =
     Inl SliceBounds \<and>
   fst (GetStatus examplePkg True (Some ''hello'') 0 (NewSession ''demo'' ''/tmp'' ''0badcafe'' 0)) =
     Inr ''waiting''"
proof -
  have "stateTracker (NewSession ''demo'' ''/tmp'' ''0badcafe'' 0) = None"
    by (simp add: NewSession_def)
  then show ?thesis
    by (simp add: GetStatus_init normalizeContent_example_empty normalizeContent_example_hello)
qed

text \<open>
  C1. A poll whose fresh hash differs from the tracker's non-empty \<open>lastHash\<close> is meant
  to store the hash and the time, clear \<open>acknowledged\<close> and return active or waiting.
  With the debug flag set, the block that logs the change slices both hashes to 16
  characters first: where the pane has become empty the placeholder is too short, the
  call panics and no field is written. The theorem runs such a poll with the flag set
  and, for comparison, with the flag off.
\<close>

theorem GetStatus_changed_debug_panics:
  "GetStatus (examplePkg\<lparr>debugStatusEnabled := True\<rparr>) True (Some []) 7
     (exampleSession\<lparr>stateTracker :=
        Some \<lparr>lastHash = hashContent examplePkg ''hello'', lastChangeTime = 0,
              acknowledged = True, stabilized = True, lastContent = ''hello''\<rparr>\<rparr>) =
     (Inl SliceBounds,
      exampleSession\<lparr>stateTracker :=
        Some \<lparr>lastHash = hashContent examplePkg ''hello'', lastChangeTime = 0,
              acknowledged = True, stabilized = True, lastContent = ''hello''\<rparr>\<rparr>) \<and>
   GetStatus examplePkg True (Some []) 7
     (exampleSession\<lparr>stateTracker :=
        Some \<lparr>lastHash = hashContent examplePkg ''hello'', lastChangeTime = 0,
              acknowledged = True, stabilized = True, lastContent = ''hello''\<rparr>\<rparr>) =
     (Inr ''active'',
      exampleSession\<lparr>stateTracker :=
        Some \<lparr>lastHash = ''__empty__'', lastChangeTime = 7,
              acknowledged = False, stabilized = True, lastContent = []\<rparr>,
        lastStableStatus := ''active''\<rparr>)"
proof -
  let ?tr = "\<lparr>lastHash = hashContent examplePkg ''hello'', lastChangeTime = 0,
              acknowledged = True, stabilized = True, lastContent = ''hello''\<rparr>"
  let ?s = "exampleSession\<lparr>stateTracker := Some ?tr\<rparr>"
  let ?d = "examplePkg\<lparr>debugStatusEnabled := True\<rparr>"
  have n: "normalizeContent ?d [] = []" "normalizeContent examplePkg [] = []"
    by code_simp+
  have f: "freshHash ?d [] = ''__empty__''" "freshHash examplePkg [] = ''__empty__''"
    by (simp_all add: freshHash_cases n)
  have h1: "stateTracker ?s = Some ?tr" by simp
  have h2: "lastHash ?tr \<noteq> []" by (simp add: hashContent_neq)
  have h3: "lastHash ?tr \<noteq> freshHash ?d []" "lastHash ?tr \<noteq> freshHash examplePkg []"
    by (simp_all add: f hashContent_neq)
  show ?thesis
    using GetStatus_changed[OF h1 h2 h3(1), of 7] GetStatus_changed[OF h1 h2 h3(2), of 7]
    by (simp add: n f debugStatusEnabled_example length_hashContent)
qed

text \<open>What \<open>ReconnectSessionWithStatus\<close> seeds, and the first poll of a seeded tracker.\<close>

lemma ReconnectSessionWithStatus_tracker:
  "stateTracker (ReconnectSessionWithStatus n d w c prev created now) =
     (if prev = ''idle'' then
        Some \<lparr>lastHash = [], lastChangeTime = now - 10 * Second, acknowledged = True,
              stabilized = True, lastContent = []\<rparr>
      else if prev = ''waiting'' then
        Some \<lparr>lastHash = [], lastChangeTime = now - 10 * Second, acknowledged = False,
              stabilized = True, lastContent = []\<rparr>
      else None)"
  by (simp add: ReconnectSessionWithStatus_def ReconnectSession_def Let_def)

lemma rehydrated_first_poll:
  "fst (GetStatus p True (Some content) t
          (ReconnectSessionWithStatus n d w c prev created now)) =
     (if prev = ''idle'' then Inr ''idle''
      else if prev = ''waiting'' then Inr ''waiting''
      else if normalizeContent p content = [] then Inl SliceBounds
      else Inr ''waiting'')"
  by (simp add: ReconnectSessionWithStatus_tracker GetStatus_init GetStatus_emptyHash)

lemma rehydrated_first_poll_hash:
  "\<exists>tr. stateTracker (snd (GetStatus p True (Some content) t
                 (ReconnectSessionWithStatus n d w c prev created now))) = Some tr \<and>
        lastHash tr = freshHash p content"
proof -
  consider "prev = ''idle''" | "prev \<noteq> ''idle''" "prev = ''waiting''"
    | "prev \<noteq> ''idle''" "prev \<noteq> ''waiting''" by blast
  then show ?thesis
    by cases
      (simp_all add: ReconnectSessionWithStatus_tracker GetStatus_init GetStatus_emptyHash)
qed

text \<open>
  C4. A prior status idle or waiting seeds a tracker with an empty hash, the change
  10 s in the past and \<open>stabilized\<close> set, acknowledged for idle only; active and every
  other status seed none. The first poll then stores the fresh hash and returns idle
  after idle and waiting after waiting. After active or an unknown status it is the
  first poll of a session without a tracker: it returns waiting, except that for an
  empty or blank pane it panics on the slice of the placeholder (the defect of C3).
  The theorem runs the first poll after each prior status on an empty pane and, for
  comparison, after active on a pane with text.
\<close>

theorem rehydrated_active_empty_pane_panics:
  "fst (GetStatus examplePkg True (Some []) 1
          (ReconnectSessionWithStatus ''agentdeck_demo_0badcafe'' ''demo'' ''/tmp'' ''claude''
             ''active'' 0 0)) = Inl SliceBounds \<and>
   fst (GetStatus examplePkg True (Some []) 1
          (ReconnectSessionWithStatus ''agentdeck_demo_0badcafe'' ''demo'' ''/tmp'' ''claude''
             ''error'' 0 0)) = Inl SliceBounds \<and>
   fst (GetStatus examplePkg True (Some []) 1
          (ReconnectSessionWithStatus ''agentdeck_demo_0badcafe'' ''demo'' ''/tmp'' ''claude''
             ''idle'' 0 0)) = Inr ''idle'' \<and>
   fst (GetStatus examplePkg True (Some []) 1
          (ReconnectSessionWithStatus ''agentdeck_demo_0badcafe'' ''demo'' ''/tmp'' ''claude''
             ''waiting'' 0 0)) = Inr ''waiting'' \<and>
   fst (GetStatus examplePkg True (Some ''hello'') 1
          (ReconnectSessionWithStatus ''agentdeck_demo_0badcafe'' ''demo'' ''/tmp'' ''claude''
             ''active'' 0 0)) = Inr ''waiting''"
  by (simp add: rehydrated_first_poll normalizeContent_example_empty
      normalizeContent_example_hello)


section \<open>Acknowledgement\<close>

lemma AcknowledgeWithSnapshot_captured:
  "AcknowledgeWithSnapshot p True (Some content) now s =
     (Inr (),
      s\<lparr>stateTracker :=
          Some ((case stateTracker s of
                   None \<Rightarrow> \<lparr>lastHash = [], lastChangeTime = now - activityCooldown,
                             acknowledged = False, stabilized = False, lastContent = []\<rparr>
                 | Some tr \<Rightarrow> tr)
                \<lparr>lastHash := hashContent p (normalizeContent p content), acknowledged := True\<rparr>),
        lastStableStatus := ''idle''\<rparr>)"
  by (simp add: AcknowledgeWithSnapshot_def ensureStateTrackerLocked_def Let_def
      sliceTo_hashContent split: option.splits)

text \<open>
  C5, as stated, fails: a session restored as waiting shows one pane, then another one
  second later (the poll returns active), the user detaches after one more second
  (\<open>AcknowledgeWithSnapshot\<close> on the pane as it is) and the poll that follows, on the same
  pane, returns active: the hash is unchanged, but the change is less than 2 seconds old
  and the cooldown decides.
\<close>

theorem AcknowledgeWithSnapshot_then_poll_active:
  "fst (GetStatus examplePkg True (Some ''ab'') 2000000001
          (run examplePkg
             [CallGetStatus True (Some ''a'') 0,
              CallGetStatus True (Some ''ab'') 1000000000,
              CallAcknowledgeWithSnapshot True (Some ''ab'') 2000000000]
             (ReconnectSessionWithStatus ''agentdeck_demo_0badcafe'' ''demo'' ''/tmp'' ''claude''
                ''waiting'' 0 0))) = Inr ''active''"
  by code_simp

text \<open>
  C5, amended. For an existing session whose capture succeeds, \<open>AcknowledgeWithSnapshot\<close>
  returns, sets \<open>lastHash\<close> to the hash of the normalized content and \<open>acknowledged\<close>, and
  emits idle. A poll after it that captures the same content returns idle where the
  normalized content is not empty and the cooldown has expired at the poll: 2 seconds
  or more since \<open>lastChangeTime\<close>, or, for a tracker that the acknowledgement allocated,
  a clock that has not gone back.
\<close>

theorem AcknowledgeWithSnapshot_then_poll_idle:
  assumes "normalizeContent p content \<noteq> []"
    and "stateTracker s = None \<longrightarrow> now \<le> now'"
    and "\<forall>tr. stateTracker s = Some tr \<longrightarrow> 2 * Second \<le> now' - lastChangeTime tr"
  shows "fst (AcknowledgeWithSnapshot p True (Some content) now s) = Inr () \<and>
         (\<exists>tr. stateTracker (snd (AcknowledgeWithSnapshot p True (Some content) now s)) = Some tr \<and>
               lastHash tr = hashContent p (normalizeContent p content) \<and> acknowledged tr) \<and>
         lastStableStatus (snd (AcknowledgeWithSnapshot p True (Some content) now s)) = ''idle'' \<and>
         fst (GetStatus p True (Some content) now'
                (snd (AcknowledgeWithSnapshot p True (Some content) now s))) = Inr ''idle''"
proof -
  let ?tr0 = "case stateTracker s of
                None \<Rightarrow> \<lparr>lastHash = [], lastChangeTime = now - activityCooldown,
                          acknowledged = False, stabilized = False, lastContent = []\<rparr>
              | Some tr \<Rightarrow> tr"
  let ?tr = "?tr0\<lparr>lastHash := hashContent p (normalizeContent p content), acknowledged := True\<rparr>"
  let ?s1 = "s\<lparr>stateTracker := Some ?tr, lastStableStatus := ''idle''\<rparr>"
  have a: "AcknowledgeWithSnapshot p True (Some content) now s = (Inr (), ?s1)"
    by (rule AcknowledgeWithSnapshot_captured)
  have h1: "stateTracker ?s1 = Some ?tr" by simp
  have h2: "lastHash ?tr \<noteq> []" by (simp add: hashContent_neq)
  have h3: "lastHash ?tr = freshHash p content"
    using assms(1) by (simp add: freshHash_cases)
  have h4: "\<not> now' - lastChangeTime ?tr < activityCooldown"
    using assms(2,3) by (cases "stateTracker s") (auto simp: activityCooldown_def)
  show ?thesis
    using GetStatus_expired[OF h1 h2 h3 h4] by (simp add: a)
qed

theorem AcknowledgeWithSnapshot_then_poll_idle_witness:
  "fst (GetStatus examplePkg True (Some ''hello'') 6
          (snd (AcknowledgeWithSnapshot examplePkg True (Some ''hello'') 5 exampleSession))) =
     Inr ''idle'' \<and>
   fst (GetStatus examplePkg True (Some ''hello'') 3000000000
          (snd (AcknowledgeWithSnapshot examplePkg True (Some ''hello'') 2500000000
                  (exampleSession\<lparr>stateTracker :=
                     Some \<lparr>lastHash = ''abc'', lastChangeTime = 0, acknowledged = False,
                           stabilized = True, lastContent = []\<rparr>\<rparr>)))) = Inr ''idle''"
proof -
  let ?tr = "\<lparr>lastHash = ''abc'', lastChangeTime = 0, acknowledged = False,
              stabilized = True, lastContent = []\<rparr>"
  let ?s = "exampleSession\<lparr>stateTracker := Some ?tr\<rparr>"
  have n: "normalizeContent examplePkg ''hello'' \<noteq> []"
    by (simp add: normalizeContent_example_hello)
  have e: "stateTracker exampleSession = None"
    by (simp add: exampleSession_def ReconnectSession_def)
  have a1: "stateTracker exampleSession = None \<longrightarrow> (5::int) \<le> 6" by simp
  have a2: "\<forall>tr. stateTracker exampleSession = Some tr \<longrightarrow> 2 * Second \<le> 6 - lastChangeTime tr"
    by (simp add: e)
  have b1: "stateTracker ?s = None \<longrightarrow> (2500000000::int) \<le> 3000000000" by simp
  have b2: "\<forall>tr. stateTracker ?s = Some tr \<longrightarrow> 2 * Second \<le> 3000000000 - lastChangeTime tr"
    by (simp add: Second_def)
  show ?thesis
    using AcknowledgeWithSnapshot_then_poll_idle[OF n a1 a2]
          AcknowledgeWithSnapshot_then_poll_idle[OF n b1 b2]
    by simp
qed

lemma failedPoll_step:
  "failedPoll c \<Longrightarrow> step p c s = s\<lparr>lastStableStatus := ''inactive''\<rparr>"
  by (cases c) (auto simp: GetStatus_def)

lemma failedPolls_tracker:
  "list_all failedPoll cs \<Longrightarrow> stateTracker (run p cs s) = stateTracker s"
  by (induction cs arbitrary: s) (simp_all add: failedPoll_step)

text \<open>
  C10. \<open>Acknowledge\<close> on a session without a tracker allocates one with an empty hash
  and \<open>acknowledged\<close> set. The first poll after it that finds the session and captures
  its pane, whatever failed polls came between, takes the branch of the empty hash:
  it stores the fresh hash and returns idle.
\<close>

theorem Acknowledge_before_first_poll:
  assumes "stateTracker s = None" and "list_all failedPoll polls"
  shows "stateTracker (Acknowledge t0 s) =
           Some \<lparr>lastHash = [], lastChangeTime = t0 - activityCooldown, acknowledged = True,
                 stabilized = False, lastContent = []\<rparr> \<and>
         fst (GetStatus p True (Some content) now (run p polls (Acknowledge t0 s))) = Inr ''idle'' \<and>
         stateTracker (snd (GetStatus p True (Some content) now (run p polls (Acknowledge t0 s)))) =
           Some \<lparr>lastHash = freshHash p content, lastChangeTime = t0 - activityCooldown,
                 acknowledged = True, stabilized = False, lastContent = []\<rparr>"
proof -
  let ?tr = "\<lparr>lastHash = [], lastChangeTime = t0 - activityCooldown, acknowledged = True,
              stabilized = False, lastContent = []\<rparr>"
  have a: "stateTracker (Acknowledge t0 s) = Some ?tr"
    using assms(1) by (simp add: Acknowledge_def ensureStateTrackerLocked_def Let_def)
  then have b: "stateTracker (run p polls (Acknowledge t0 s)) = Some ?tr"
    using assms(2) by (simp add: failedPolls_tracker)
  have c: "lastHash ?tr = []" by simp
  show ?thesis
    using a GetStatus_emptyHash[OF b c] by simp
qed

theorem Acknowledge_before_first_poll_witness:
  "fst (GetStatus examplePkg True (Some ''hello'') 3
          (run examplePkg [CallGetStatus False None 1, CallGetStatus True None 2]
             (Acknowledge 0 (NewSession ''demo'' ''/tmp'' ''0badcafe'' 0)))) = Inr ''idle''"
proof -
  have h1: "stateTracker (NewSession ''demo'' ''/tmp'' ''0badcafe'' 0) = None"
    by (simp add: NewSession_def)
  have h2: "list_all failedPoll [CallGetStatus False None 1, CallGetStatus True None 2]"
    by simp
  show ?thesis
    using Acknowledge_before_first_poll[OF h1 h2] by simp
qed

section \<open>The flag \<open>stabilized\<close>\<close>

lemma GetStatus_isStabilized:
  assumes "isStabilized s"
  shows "isStabilized (snd (GetStatus p exists capture now s))"
proof (cases "\<not> exists \<or> capture = None")
  case True
  then show ?thesis using assms by (simp add: GetStatus_failed isStabilized_def)
next
  case False
  then obtain content where c: "exists" "capture = Some content" by auto
  from assms obtain tr where tr: "stateTracker s = Some tr" "stabilized tr"
    by (auto simp: isStabilized_def split: option.splits)
  consider "lastHash tr = []"
    | "lastHash tr \<noteq> []" "lastHash tr \<noteq> freshHash p content"
    | "lastHash tr \<noteq> []" "lastHash tr = freshHash p content"
      "now - lastChangeTime tr < activityCooldown"
    | "lastHash tr \<noteq> []" "lastHash tr = freshHash p content"
      "\<not> now - lastChangeTime tr < activityCooldown"
    by blast
  then show ?thesis
  proof cases
    case 1
    then show ?thesis using tr c by (simp add: GetStatus_emptyHash isStabilized_def)
  next
    case 2
    then show ?thesis using tr c by (simp add: GetStatus_changed isStabilized_def)
  next
    case 3
    then show ?thesis using tr c by (simp add: GetStatus_cooldown isStabilized_def)
  next
    case 4
    then show ?thesis using tr c by (simp add: GetStatus_expired isStabilized_def)
  qed
qed

lemma Acknowledge_isStabilized: "isStabilized s \<Longrightarrow> isStabilized (Acknowledge now s)"
  by (auto simp: Acknowledge_def ensureStateTrackerLocked_def isStabilized_def Let_def
      split: option.splits)

lemma ResetAcknowledged_isStabilized:
  "isStabilized s \<Longrightarrow> isStabilized (ResetAcknowledged now s)"
  by (auto simp: ResetAcknowledged_def ensureStateTrackerLocked_def isStabilized_def Let_def
      split: option.splits)

lemma AcknowledgeWithSnapshot_isStabilized:
  "isStabilized s \<Longrightarrow> isStabilized (snd (AcknowledgeWithSnapshot p exists capture now s))"
  by (auto simp: AcknowledgeWithSnapshot_def ensureStateTrackerLocked_def isStabilized_def
      Let_def split: option.splits sum.splits)

lemma step_isStabilized: "isStabilized s \<Longrightarrow> isStabilized (step p c s)"
  by (cases c) (simp_all add: GetStatus_isStabilized Acknowledge_isStabilized
      ResetAcknowledged_isStabilized AcknowledgeWithSnapshot_isStabilized)

lemma run_isStabilized: "isStabilized s \<Longrightarrow> isStabilized (run p cs s)"
  by (induction cs arbitrary: s) (simp_all add: step_isStabilized)

lemma run_append: "run p (cs1 @ cs2) s = run p cs2 (run p cs1 s)"
  by (induction cs1 arbitrary: s) simp_all

text \<open>
  C9. Once the tracker of a session is stabilized, it stays so through every further
  call of \<open>GetStatus\<close>, \<open>Acknowledge\<close>, \<open>AcknowledgeWithSnapshot\<close> and \<open>ResetAcknowledged\<close>,
  whatever the calls observe and whether or not one of them panics.
\<close>

theorem stabilized_monotone:
  "isStabilized (run p cs1 s) \<Longrightarrow> isStabilized (run p (cs1 @ cs2) s)"
  by (simp add: run_append run_isStabilized)

theorem stabilized_monotone_witness:
  "\<not> isStabilized (NewSession ''demo'' ''/tmp'' ''0badcafe'' 0) \<and>
   isStabilized
     (run examplePkg
        [CallGetStatus True (Some ''hi'') 0, CallGetStatus True (Some ''hi'') 3000000000]
        (NewSession ''demo'' ''/tmp'' ''0badcafe'' 0)) \<and>
   isStabilized
     (run examplePkg
        ([CallGetStatus True (Some ''hi'') 0, CallGetStatus True (Some ''hi'') 3000000000] @
         [CallGetStatus True (Some ''more'') 3500000000, CallAcknowledge 3600000000,
          CallResetAcknowledged 3700000000,
          CallAcknowledgeWithSnapshot True (Some ''more'') 3800000000,
          CallGetStatus False None 3900000000, CallGetStatus True (Some []) 4000000000])
        (NewSession ''demo'' ''/tmp'' ''0badcafe'' 0))"
proof -
  have n: "\<not> isStabilized (NewSession ''demo'' ''/tmp'' ''0badcafe'' 0)"
    by (simp add: isStabilized_def NewSession_def)
  have h: "isStabilized
     (run examplePkg
        [CallGetStatus True (Some ''hi'') 0, CallGetStatus True (Some ''hi'') 3000000000]
        (NewSession ''demo'' ''/tmp'' ''0badcafe'' 0))"
    by code_simp
  show ?thesis
    using n h stabilized_monotone[OF h] by blast
qed


section \<open>Tool detection\<close>

lemma detectByContent_Some:
  "detectByContent order cleanContent = Some tool \<Longrightarrow>
   tool \<in> set order \<and> toolMatches tool cleanContent"
  by (induction order) (auto simp: toolMatches_def split: if_splits)

lemma detectByContent_None:
  "detectByContent order cleanContent = None \<Longrightarrow>
   \<forall>tool \<in> set order. \<not> toolMatches tool cleanContent"
  by (induction order) (auto simp: toolMatches_def split: if_splits)

lemma toolMatches_known:
  "toolMatches tool cleanContent \<Longrightarrow> tool \<in> {''claude'', ''gemini'', ''aider'', ''codex''}"
  by (auto simp: toolMatches_def toolDetectionPatterns_def split: if_splits)

lemma DetectTool_cached:
  "cacheValid since s \<Longrightarrow> DetectTool p order capture since now s = (detectedTool s, s)"
  by (simp add: DetectTool_def cacheValid_def)

lemma DetectTool_command:
  assumes "\<not> cacheValid since s"
  shows "DetectTool p order capture since now s =
           (if commandHas p s ''claude'' then detected ''claude'' now s
            else if commandHas p s ''gemini'' then detected ''gemini'' now s
            else if commandHas p s ''aider'' then detected ''aider'' now s
            else if commandHas p s ''codex'' then detected ''codex'' now s
            else (case capture of
                    None \<Rightarrow> detected ''shell'' now s
                  | Some content \<Rightarrow>
                      (case detectByContent order (StripANSI p content) of
                         Some tool \<Rightarrow> detected tool now s
                       | None \<Rightarrow> detected ''shell'' now s)))"
  using assms by (auto simp: DetectTool_def cacheValid_def commandHas_def)

lemma DetectTool_content:
  assumes "\<not> cacheValid since s" and "\<not> commandHas p s ''claude''"
    and "\<not> commandHas p s ''gemini''" and "\<not> commandHas p s ''aider''"
    and "\<not> commandHas p s ''codex''"
  shows "\<exists>tool. DetectTool p order (Some content) since now s = detected tool now s \<and>
           (tool \<in> set order \<and> toolMatches tool (StripANSI p content) \<or>
            tool = ''shell'' \<and> (\<forall>t \<in> set order. \<not> toolMatches t (StripANSI p content)))"
proof (cases "detectByContent order (StripANSI p content)")
  case None
  have "DetectTool p order (Some content) since now s = detected ''shell'' now s"
    using assms None by (simp add: DetectTool_command)
  then show ?thesis
    using detectByContent_None[OF None] by blast
next
  case (Some tool)
  have "DetectTool p order (Some content) since now s = detected tool now s"
    using assms Some by (simp add: DetectTool_command)
  then show ?thesis
    using detectByContent_Some[OF Some] by blast
qed

lemma DetectTool_fills_cache:
  assumes "\<not> cacheValid since s"
  shows "fst (DetectTool p order capture since now s) \<noteq> [] \<and>
         detectedTool (snd (DetectTool p order capture since now s)) =
           fst (DetectTool p order capture since now s) \<and>
         toolDetectedAt (snd (DetectTool p order capture since now s)) = now \<and>
         toolDetectExpiry (snd (DetectTool p order capture since now s)) = toolDetectExpiry s"
proof (cases capture)
  case None
  then show ?thesis
    using assms by (simp add: DetectTool_command detected_def)
next
  case (Some content)
  show ?thesis
  proof (cases "detectByContent order (StripANSI p content)")
    case None
    then show ?thesis
      using assms Some by (simp add: DetectTool_command detected_def)
  next
    case (Some tool)
    with detectByContent_Some[OF Some] toolMatches_known[of tool "StripANSI p content"]
    have "tool \<noteq> []" by auto
    then show ?thesis
      using assms Some \<open>capture = Some content\<close> by (simp add: DetectTool_command detected_def)
  qed
qed

text \<open>
  C8. When the cache does not answer, \<open>DetectTool\<close> looks for claude, gemini, aider and
  codex, in this order, in the stored command in lower case; only when none occurs (or
  no command is stored) does it capture the pane: a failed capture gives shell, and
  otherwise the result is a tool of the table one of whose patterns matches the stripped
  content, or shell when no pattern of any tool matches. Each detection stores the tool
  and the time. A session made by \<open>NewSession\<close> has an empty cache and an expiry of 30
  seconds, which no call changes; after a detection at time \<open>now\<close> every call whose clock
  reads less than \<open>now\<close> + 30 s returns the stored tool and leaves the session as it is,
  whatever the command and the pane have become.
\<close>

theorem DetectTool_order_and_cache:
  "(\<not> cacheValid since s \<longrightarrow>
      (commandHas p s ''claude'' \<longrightarrow>
         DetectTool p order capture since now s = detected ''claude'' now s) \<and>
      (\<not> commandHas p s ''claude'' \<and> commandHas p s ''gemini'' \<longrightarrow>
         DetectTool p order capture since now s = detected ''gemini'' now s) \<and>
      (\<not> commandHas p s ''claude'' \<and> \<not> commandHas p s ''gemini'' \<and> commandHas p s ''aider'' \<longrightarrow>
         DetectTool p order capture since now s = detected ''aider'' now s) \<and>
      (\<not> commandHas p s ''claude'' \<and> \<not> commandHas p s ''gemini'' \<and> \<not> commandHas p s ''aider'' \<and>
       commandHas p s ''codex'' \<longrightarrow>
         DetectTool p order capture since now s = detected ''codex'' now s) \<and>
      (\<not> commandHas p s ''claude'' \<and> \<not> commandHas p s ''gemini'' \<and> \<not> commandHas p s ''aider'' \<and>
       \<not> commandHas p s ''codex'' \<longrightarrow>
         DetectTool p order None since now s = detected ''shell'' now s \<and>
         (\<exists>tool. DetectTool p order (Some content) since now s = detected tool now s \<and>
            (tool \<in> set order \<and> toolMatches tool (StripANSI p content) \<or>
             tool = ''shell'' \<and> (\<forall>t \<in> set order. \<not> toolMatches t (StripANSI p content)))))) \<and>
   \<not> cacheValid since (NewSession name workDir uniqueSuffix created) \<and>
   toolDetectExpiry (NewSession name workDir uniqueSuffix created) = 30 * Second \<and>
   toolDetectExpiry (snd (DetectTool p order capture since now s)) = toolDetectExpiry s \<and>
   (\<not> cacheValid since s \<and> toolDetectExpiry s = 30 * Second \<and> since' - now < 30 * Second \<longrightarrow>
      DetectTool p' order' capture' since' now'
        ((snd (DetectTool p order capture since now s))\<lparr>Command := command'\<rparr>) =
        (fst (DetectTool p order capture since now s),
         (snd (DetectTool p order capture since now s))\<lparr>Command := command'\<rparr>))"
proof -
  have new: "\<not> cacheValid since (NewSession name workDir uniqueSuffix created) \<and>
             toolDetectExpiry (NewSession name workDir uniqueSuffix created) = 30 * Second"
    by (simp add: cacheValid_def NewSession_def)
  have keep: "toolDetectExpiry (snd (DetectTool p order capture since now s)) = toolDetectExpiry s"
  proof (cases "cacheValid since s")
    case True
    then show ?thesis by (simp add: DetectTool_cached)
  next
    case False
    then show ?thesis by (simp add: DetectTool_fills_cache)
  qed
  have cache: "DetectTool p' order' capture' since' now'
        ((snd (DetectTool p order capture since now s))\<lparr>Command := command'\<rparr>) =
        (fst (DetectTool p order capture since now s),
         (snd (DetectTool p order capture since now s))\<lparr>Command := command'\<rparr>)"
    if "\<not> cacheValid since s" "toolDetectExpiry s = 30 * Second" "since' - now < 30 * Second"
  proof -
    let ?r = "DetectTool p order capture since now s"
    have "cacheValid since' ((snd ?r)\<lparr>Command := command'\<rparr>)"
      using DetectTool_fills_cache[OF that(1), of p order capture now] that(2,3)
      by (simp add: cacheValid_def)
    from DetectTool_cached[OF this]
    show ?thesis
      using DetectTool_fills_cache[OF that(1), of p order capture now] by simp
  qed
  have content: "\<exists>tool. DetectTool p order (Some content) since now s = detected tool now s \<and>
            (tool \<in> set order \<and> toolMatches tool (StripANSI p content) \<or>
             tool = ''shell'' \<and> (\<forall>t \<in> set order. \<not> toolMatches t (StripANSI p content)))"
    if "\<not> cacheValid since s" "\<not> commandHas p s ''claude''" "\<not> commandHas p s ''gemini''"
       "\<not> commandHas p s ''aider''" "\<not> commandHas p s ''codex''"
    using DetectTool_content[OF that] .
  show ?thesis
    using new keep cache content by (simp add: DetectTool_command)
qed


theorem DetectTool_order_and_cache_witness:
  "DetectTool examplePkg [''codex'', ''aider'', ''gemini'', ''claude''] None 5 6
     ((NewSession ''demo'' ''/tmp'' ''0badcafe'' 0)\<lparr>Command := ''Claude --resume''\<rparr>) =
     detected ''claude'' 6
       ((NewSession ''demo'' ''/tmp'' ''0badcafe'' 0)\<lparr>Command := ''Claude --resume''\<rparr>) \<and>
   fst (DetectTool examplePkg [''codex'', ''aider'', ''gemini'', ''claude'']
          (Some ''Welcome to Gemini'') 20000000000 20000000001
          ((snd (DetectTool examplePkg [''codex'', ''aider'', ''gemini'', ''claude''] None 5 6
                  ((NewSession ''demo'' ''/tmp'' ''0badcafe'' 0)\<lparr>Command := ''Claude --resume''\<rparr>)))
           \<lparr>Command := ''aider''\<rparr>)) = ''claude'' \<and>
   fst (DetectTool examplePkg [''codex'', ''aider'', ''gemini'', ''claude'']
          (Some ''Welcome to Gemini'') 5 6 (NewSession ''demo'' ''/tmp'' ''0badcafe'' 0)) = ''gemini'' \<and>
   fst (DetectTool examplePkg [''codex'', ''aider'', ''gemini'', ''claude'']
          (Some ''$ ls'') 5 6 (NewSession ''demo'' ''/tmp'' ''0badcafe'' 0)) = ''shell''"
proof -
  let ?order = "[''codex'', ''aider'', ''gemini'', ''claude'']"
  let ?s0 = "NewSession ''demo'' ''/tmp'' ''0badcafe'' 0"
  let ?s1 = "?s0\<lparr>Command := ''Claude --resume''\<rparr>"
  have m1: "\<not> cacheValid 5 ?s1" and e1: "toolDetectExpiry ?s1 = 30 * Second"
    and m0: "\<not> cacheValid 5 ?s0"
    by (simp_all add: cacheValid_def NewSession_def)
  have c1: "commandHas examplePkg ?s1 ''claude''"
    by code_simp
  have c0: "\<not> commandHas examplePkg ?s0 ''claude''" "\<not> commandHas examplePkg ?s0 ''gemini''"
    "\<not> commandHas examplePkg ?s0 ''aider''" "\<not> commandHas examplePkg ?s0 ''codex''"
    by (simp_all add: commandHas_def NewSession_def)
  have t: "(20000000000::int) - 6 < 30 * Second" by (simp add: Second_def)
  have a: "DetectTool examplePkg ?order None 5 6 ?s1 = detected ''claude'' 6 ?s1"
    using DetectTool_order_and_cache[where since = 5 and s = ?s1 and p = examplePkg
        and order = ?order and capture = None and now = 6] m1 c1
    by blast
  have b: "DetectTool examplePkg ?order (Some ''Welcome to Gemini'') 20000000000 20000000001
             ((snd (DetectTool examplePkg ?order None 5 6 ?s1))\<lparr>Command := ''aider''\<rparr>) =
           (fst (DetectTool examplePkg ?order None 5 6 ?s1),
            (snd (DetectTool examplePkg ?order None 5 6 ?s1))\<lparr>Command := ''aider''\<rparr>)"
    using DetectTool_order_and_cache[where since = 5 and s = ?s1 and p = examplePkg
        and order = ?order and capture = None and now = 6 and since' = 20000000000
        and p' = examplePkg and order' = ?order and capture' = "Some ''Welcome to Gemini''"
        and now' = 20000000001 and command' = "''aider''"] m1 e1 t
    by blast
  have g: "toolMatches ''gemini'' (StripANSI examplePkg ''Welcome to Gemini'')"
    "\<not> toolMatches ''codex'' (StripANSI examplePkg ''Welcome to Gemini'')"
    "\<not> toolMatches ''aider'' (StripANSI examplePkg ''Welcome to Gemini'')"
    "\<not> toolMatches ''claude'' (StripANSI examplePkg ''Welcome to Gemini'')"
    "\<not> toolMatches ''shell'' (StripANSI examplePkg ''Welcome to Gemini'')"
    by code_simp+
  have h: "\<not> toolMatches ''gemini'' (StripANSI examplePkg ''$ ls'')"
    "\<not> toolMatches ''codex'' (StripANSI examplePkg ''$ ls'')"
    "\<not> toolMatches ''aider'' (StripANSI examplePkg ''$ ls'')"
    "\<not> toolMatches ''claude'' (StripANSI examplePkg ''$ ls'')"
    by code_simp+
  have c: "\<exists>tool. DetectTool examplePkg ?order (Some ''Welcome to Gemini'') 5 6 ?s0 = detected tool 6 ?s0 \<and>
            (tool \<in> set ?order \<and> toolMatches tool (StripANSI examplePkg ''Welcome to Gemini'') \<or>
             tool = ''shell'' \<and> (\<forall>t \<in> set ?order. \<not> toolMatches t (StripANSI examplePkg ''Welcome to Gemini'')))"
    using DetectTool_order_and_cache[where since = 5 and s = ?s0 and p = examplePkg
        and order = ?order and now = 6 and content = "''Welcome to Gemini''"] m0 c0
    by blast
  have d: "\<exists>tool. DetectTool examplePkg ?order (Some ''$ ls'') 5 6 ?s0 = detected tool 6 ?s0 \<and>
            (tool \<in> set ?order \<and> toolMatches tool (StripANSI examplePkg ''$ ls'') \<or>
             tool = ''shell'' \<and> (\<forall>t \<in> set ?order. \<not> toolMatches t (StripANSI examplePkg ''$ ls'')))"
    using DetectTool_order_and_cache[where since = 5 and s = ?s0 and p = examplePkg
        and order = ?order and now = 6 and content = "''$ ls''"] m0 c0
    by blast
  from c g have c': "fst (DetectTool examplePkg ?order (Some ''Welcome to Gemini'') 5 6 ?s0) = ''gemini''"
    by (auto simp: detected_def)
  from d h have d': "fst (DetectTool examplePkg ?order (Some ''$ ls'') 5 6 ?s0) = ''shell''"
    by (auto simp: detected_def)
  show ?thesis
    using a b c' d' by (simp add: detected_def)
qed



section \<open>The normalizer\<close>

text \<open>The equations of the star and of \<open>ReplaceAllString\<close> call themselves; from here
  on they are applied by hand.\<close>

declare ms.simps(6) [simp del]
declare ReplaceAllString.simps [simp del]












declare firstMatch.simps [simp del]









subsection \<open>Blank lines\<close>




















subsection \<open>Trailing blanks\<close>





lemma TrimRight_empty_iff: "(TrimRight h cutset = []) = (\<forall>x \<in> set h. x \<in> set cutset)"
  by (simp add: TrimRight_def dropWhile_eq_Nil_conv)









subsection \<open>Control characters and spinners in ASCII text\<close>

lemma runeLen_ascii: "(of_char c :: nat) < 128 \<Longrightarrow> runeLen (c # cs) = 1"
  by simp





subsection \<open>Idempotence\<close>









lemma normalizeContent_StripANSI:
  "StripANSI p x = StripANSI q x \<Longrightarrow> normalizeContent p x = normalizeContent q x"
  by (simp add: normalizeContent_def)


text \<open>The same for every \<open>StripANSI\<close> that leaves the two texts as they are.\<close>

lemma normalizeContent_twice_Thinking:
  assumes "StripANSI p ''Thinking (a) (b)'' = ''Thinking (a) (b)''"
    and "StripANSI p ''Thinking... (b)'' = ''Thinking... (b)''"
  shows "normalizeContent p ''Thinking (a) (b)'' = ''Thinking... (b)'' \<and>
         normalizeContent p (normalizeContent p ''Thinking (a) (b)'') = ''Thinking...''"
proof -
  have e: "StripANSI examplePkg ''Thinking (a) (b)'' = ''Thinking (a) (b)''"
    "StripANSI examplePkg ''Thinking... (b)'' = ''Thinking... (b)''"
    by code_simp+
  have v: "normalizeContent examplePkg ''Thinking (a) (b)'' = ''Thinking... (b)''"
    "normalizeContent examplePkg ''Thinking... (b)'' = ''Thinking...''"
    by code_simp+
  have 1: "normalizeContent p ''Thinking (a) (b)'' = ''Thinking... (b)''"
    using normalizeContent_StripANSI[of p "''Thinking (a) (b)''" examplePkg] assms(1) e(1) v(1)
    by simp
  have 2: "normalizeContent p ''Thinking... (b)'' = ''Thinking...''"
    using normalizeContent_StripANSI[of p "''Thinking... (b)''" examplePkg] assms(2) e(2) v(2)
    by simp
  show ?thesis by (simp only: 1 2)
qed


end
